theory Spec2Isabelle
  imports Complex_Main "HOL-Library.Word"
begin

unbundle bit_operations_syntax

section \<open>The scalar type of the header: IEEE-754 binary32\<close>

text \<open>
  Every numeric field of \<^verbatim>\<open>SmoothTrajectoryGenerator.h\<close> is a C++ \<^verbatim>\<open>float\<close>. A value of
  that type is a 32-bit pattern: one sign bit, eight exponent bits, twenty-three fraction
  bits. The three fields are kept apart here, so two values of \<open>float32\<close> are equal in HOL
  exactly when their bit patterns are equal.
\<close>

datatype float32 = Float32 (f_sign: bool) (f_expo: "8 word") (f_frac: "23 word")

text \<open>
  The bit pattern of a value, and the value of a bit pattern: bit 31 is the sign, bits 30
  to 23 the exponent field, bits 22 to 0 the fraction field.
\<close>

definition bits_of_float :: "float32 \<Rightarrow> 32 word" where
  "bits_of_float f =
     push_bit 31 (of_bool (f_sign f)) OR push_bit 23 (ucast (f_expo f)) OR ucast (f_frac f)"

definition float_of_bits :: "32 word \<Rightarrow> float32" where
  "float_of_bits w = Float32 (bit w 31) (ucast (drop_bit 23 w)) (ucast w)"

definition is_nan :: "float32 \<Rightarrow> bool" where
  "is_nan f \<longleftrightarrow> f_expo f = 255 \<and> f_frac f \<noteq> 0"

definition is_zero :: "float32 \<Rightarrow> bool" where
  "is_zero f \<longleftrightarrow> f_expo f = 0 \<and> f_frac f = 0"

text \<open>
  The magnitude of a value that is not a NaN, in units of \<open>2 ^ -149\<close> (the smallest
  subnormal), so that it is an integer: a subnormal (exponent field 0) is its fraction
  field, a normal number is \<open>(2 ^ 23 + fraction) * 2 ^ (exponent - 1)\<close>. The same formula
  sends an infinity (exponent field 255, fraction 0) to \<open>2 ^ 277\<close>, above every finite
  magnitude, which is its place in the order.
\<close>

definition magnitude :: "float32 \<Rightarrow> int" where
  "magnitude f =
     (if f_expo f = 0 then uint (f_frac f)
      else (2 ^ 23 + uint (f_frac f)) * 2 ^ (unat (f_expo f) - 1))"

definition scaled :: "float32 \<Rightarrow> int" where
  "scaled f = (if f_sign f then - magnitude f else magnitude f)"

text \<open>
  The comparisons of C++ on \<^verbatim>\<open>float\<close>: a comparison with a NaN operand is false, and
  otherwise the values are compared (so the two zeros are equal).
\<close>

definition float_lt :: "float32 \<Rightarrow> float32 \<Rightarrow> bool" where
  "float_lt a b \<longleftrightarrow> \<not> is_nan a \<and> \<not> is_nan b \<and> scaled a < scaled b"

definition float_le :: "float32 \<Rightarrow> float32 \<Rightarrow> bool" where
  "float_le a b \<longleftrightarrow> \<not> is_nan a \<and> \<not> is_nan b \<and> scaled a \<le> scaled b"

definition float_eq :: "float32 \<Rightarrow> float32 \<Rightarrow> bool" where
  "float_eq a b \<longleftrightarrow> \<not> is_nan a \<and> \<not> is_nan b \<and> scaled a = scaled b"

text \<open>\<^verbatim>\<open>fabs\<close> clears the sign bit and leaves the other bits alone.\<close>

definition fabs :: "float32 \<Rightarrow> float32" where
  "fabs f = Float32 False (f_expo f) (f_frac f)"

text \<open>The literal \<^verbatim>\<open>0\<close> converted to \<^verbatim>\<open>float\<close>: positive zero.\<close>

definition float_zero :: float32 where
  "float_zero = Float32 False 0 0"

text \<open>
  The literal \<^verbatim>\<open>1e-6\<close> converted to \<^verbatim>\<open>float\<close>: the nearest binary32 value, with the
  bit pattern \<^verbatim>\<open>0x358637BD\<close> (exponent field 107, fraction field \<^verbatim>\<open>0x0637BD\<close>).
\<close>

definition float_1e_6 :: float32 where
  "float_1e_6 = Float32 False 107 407485"

section \<open>The structures of the header\<close>

text \<open>
  The structures are parametric in the scalar type \<open>'f\<close>: the header instantiates it with
  \<^verbatim>\<open>float\<close>, that is \<open>float32\<close>. Isabelle reserves names that end in an underscore, so a
  member \<^verbatim>\<open>x_\<close> of the source is written without it, after the name of its structure
  where the bare name would collide with another member or with a variable.
\<close>

record 'f Point =
  Point_x :: 'f
  Point_y :: 'f
  Point_a :: 'f

record 'f Velocity =
  Velocity_vx :: 'f
  Velocity_vy :: 'f
  Velocity_va :: 'f

record 'f PVTPoint =
  PVT_position :: "'f Point"
  PVT_velocity :: "'f Velocity"
  PVT_time :: 'f

record 'f DynamicLimits =
  max_vel :: 'f
  max_acc :: 'f
  max_jerk :: 'f

text \<open>
  \<^verbatim>\<open>SwitchPoint\<close>: the time, position, velocity and acceleration at a boundary between
  two regions of a 1-D trajectory.
\<close>

record 'f SwitchPoint =
  sp_t :: 'f
  sp_p :: 'f
  sp_v :: 'f
  sp_a :: 'f

text \<open>
  \<^verbatim>\<open>SCurveParameters\<close>. The member \<^verbatim>\<open>SwitchPoint switch_points_[8]\<close> is a list; the functions
  below that fill it always produce eight entries.
\<close>

record 'f SCurveParameters =
  v_lim :: 'f
  a_lim :: 'f
  j_lim :: 'f
  switch_points :: "'f SwitchPoint list"

text \<open>\<^verbatim>\<open>Trajectory\<close>, with \<^verbatim>\<open>Eigen::Vector2f\<close> as a pair.\<close>

record 'f Trajectory =
  trans_direction :: "'f \<times> 'f"
  rot_direction :: int
  initialPoint :: "'f Point"
  trans_params :: "'f SCurveParameters"
  rot_params :: "'f SCurveParameters"
  complete :: bool

record 'f SolverParameters =
  num_loops :: int
  alpha_decay :: 'f
  beta_decay :: 'f
  exponent_decay :: 'f

text \<open>\<^verbatim>\<open>MotionPlanningProblem\<close>, with \<^verbatim>\<open>Eigen::Vector3f\<close> as a triple.\<close>

record 'f MotionPlanningProblem =
  mpp_initialPoint :: "'f \<times> 'f \<times> 'f"
  mpp_targetPoint :: "'f \<times> 'f \<times> 'f"
  translationalLimits :: "'f DynamicLimits"
  rotationalLimits :: "'f DynamicLimits"
  mpp_solver_params :: "'f SolverParameters"

text \<open>The two private members of the class \<^verbatim>\<open>SmoothTrajectoryGenerator\<close>.\<close>

record 'f SmoothTrajectoryGenerator =
  currentTrajectory :: "'f Trajectory"
  solver_params :: "'f SolverParameters"

text \<open>
  \<^verbatim>\<open>Point(float x=0, float y=0, float a=0) : x_(x), y_(y), a_(a) {}\<close>
  An argument left out at the call is \<open>None\<close> and takes its default.
\<close>

definition Point_ctor :: "float32 option \<Rightarrow> float32 option \<Rightarrow> float32 option \<Rightarrow> float32 Point" where
  "Point_ctor x y a =
     \<lparr> Point_x = (case x of None \<Rightarrow> float_zero | Some x' \<Rightarrow> x'),
       Point_y = (case y of None \<Rightarrow> float_zero | Some y' \<Rightarrow> y'),
       Point_a = (case a of None \<Rightarrow> float_zero | Some a' \<Rightarrow> a') \<rparr>"

text \<open>\<^verbatim>\<open>Point::operator==\<close>: the three components compared with \<^verbatim>\<open>==\<close> on \<^verbatim>\<open>float\<close>.\<close>

definition Point_eq :: "float32 Point \<Rightarrow> float32 Point \<Rightarrow> bool" where
  "Point_eq p other \<longleftrightarrow>
     float_eq (Point_x p) (Point_x other) \<and> float_eq (Point_y p) (Point_y other) \<and> float_eq (Point_a p) (Point_a other)"

text \<open>\<^verbatim>\<open>Velocity(float vx=0, float vy=0, float va=0) : vx_(vx), vy_(vy), va_(va) {}\<close>\<close>

definition Velocity_ctor :: "float32 option \<Rightarrow> float32 option \<Rightarrow> float32 option \<Rightarrow> float32 Velocity" where
  "Velocity_ctor vx vy va =
     \<lparr> Velocity_vx = (case vx of None \<Rightarrow> float_zero | Some x' \<Rightarrow> x'),
       Velocity_vy = (case vy of None \<Rightarrow> float_zero | Some y' \<Rightarrow> y'),
       Velocity_va = (case va of None \<Rightarrow> float_zero | Some a' \<Rightarrow> a') \<rparr>"

definition Velocity_eq :: "float32 Velocity \<Rightarrow> float32 Velocity \<Rightarrow> bool" where
  "Velocity_eq v other \<longleftrightarrow>
     float_eq (Velocity_vx v) (Velocity_vx other) \<and> float_eq (Velocity_vy v) (Velocity_vy other) \<and> float_eq (Velocity_va v) (Velocity_va other)"

text \<open>
  \<^verbatim>\<open>Velocity::nearZero(float eps=1e-6)\<close>, with its two branches. The tolerance is passed
  explicitly; \<open>nearZero_default\<close> is the call with the argument left out.
\<close>

definition nearZero :: "float32 Velocity \<Rightarrow> float32 \<Rightarrow> bool" where
  "nearZero v eps =
     (if float_lt (fabs (Velocity_vx v)) eps \<and> float_lt (fabs (Velocity_vy v)) eps \<and> float_lt (fabs (Velocity_va v)) eps
      then True
      else False)"

definition nearZero_default :: "float32 Velocity \<Rightarrow> bool" where
  "nearZero_default v = nearZero v float_1e_6"

text \<open>
  \<^verbatim>\<open>PVTPoint\<close> declares no constructor: a default-initialised value has its \<^verbatim>\<open>position_\<close>
  and \<^verbatim>\<open>velocity_\<close> built by the default constructors above, and a \<^verbatim>\<open>time_\<close> that the
  header does not set, taken as the argument here.
\<close>

definition PVTPoint_default :: "float32 \<Rightarrow> float32 PVTPoint" where
  "PVTPoint_default t =
     \<lparr> PVT_position = Point_ctor None None None,
       PVT_velocity = Velocity_ctor None None None,
       PVT_time = t \<rparr>"

text \<open>
  \<^verbatim>\<open>DynamicLimits::operator*\<close>: each of the three fields multiplied by \<open>c\<close>, with \<open>c\<close> on
  the left as in the source. The product is that of the scalar type, whatever it is: the
  rounded product of binary32 in the header, the exact product of \<open>real\<close> in the sections
  below.
\<close>

definition DynamicLimits_times :: "('f::times) DynamicLimits \<Rightarrow> 'f \<Rightarrow> 'f DynamicLimits" where
  "DynamicLimits_times L c =
     \<lparr> max_vel = c * max_vel L, max_acc = c * max_acc L, max_jerk = c * max_jerk L \<rparr>"

section \<open>The solver, the synchronizer and the facade\<close>

text \<open>
  The header declares \<^verbatim>\<open>generateSCurve\<close>, \<^verbatim>\<open>populateSwitchTimeParameters\<close>,
  \<^verbatim>\<open>synchronizeParameters\<close>, \<^verbatim>\<open>lookup_1D\<close>, \<^verbatim>\<open>computeKinematicsBasedOnRegion\<close>,
  \<^verbatim>\<open>buildMotionPlanningProblem\<close>, \<^verbatim>\<open>generateTrajectory\<close> and the three public methods of
  \<^verbatim>\<open>SmoothTrajectoryGenerator\<close>; their bodies are in a source file that is not at hand.
  The definitions of this section keep the declared names and follow the specification's
  description of each operation. Its formulas are over exact numbers, so the scalar type
  is \<open>real\<close> here: rounding is not part of this model.
\<close>

text \<open>
  Modelled from the spec: the comparison tolerance \<open>1e-6\<close> of section 4.3, used wherever
  the specification says "within epsilon". No constant of the header holds it.
\<close>

definition tolerance :: real where
  "tolerance = 1 / 1000000"

text \<open>
  Modelled from the spec: the closed-form integration of section 4.3 from a switch point
  \<open>s\<close> under constant jerk \<open>j\<close> for a time \<open>dt\<close>. The body of
  \<^verbatim>\<open>computeKinematicsBasedOnRegion\<close> is missing; \<open>integrate\<close> is the same formulas with
  the time advanced, as \<^verbatim>\<open>populateSwitchTimeParameters\<close> needs them.
\<close>

definition integrate :: "real SwitchPoint \<Rightarrow> real \<Rightarrow> real \<Rightarrow> real SwitchPoint" where
  "integrate s j dt =
     \<lparr> sp_t = sp_t s + dt,
       sp_p = sp_p s + sp_v s * dt + sp_a s * dt\<^sup>2 / 2 + j * dt ^ 3 / 6,
       sp_v = sp_v s + sp_a s * dt + j * dt\<^sup>2 / 2,
       sp_a = sp_a s + j * dt \<rparr>"

text \<open>
  Modelled from the spec: the signs of the jerk in the seven regions,
  \<open>[+J, 0, -J, 0, -J, 0, +J]\<close> (sections 4.3 and 8).
\<close>

definition jerk_signs :: "real list" where
  "jerk_signs = [1, 0, - 1, 0, - 1, 0, 1]"



text \<open>
  Modelled from the spec: switch point 0 of every parameter set (section 3), the origin
  \<open>(0, 0, 0, 0)\<close>.
\<close>

definition origin :: "real SwitchPoint" where
  "origin = \<lparr> sp_t = 0, sp_p = 0, sp_v = 0, sp_a = 0 \<rparr>"

text \<open>
  Modelled from the spec: the loop of \<^verbatim>\<open>populateSwitchTimeParameters\<close> over the regions,
  each given by the sign of its jerk and its duration: the switch point that closes a
  region is reached from the one that opens it "by analytic integration of
  piecewise-constant jerk" (section 4.1).
\<close>

fun fill_switch_points :: "real \<Rightarrow> real SwitchPoint \<Rightarrow> (real \<times> real) list \<Rightarrow> real SwitchPoint list" where
  "fill_switch_points J s [] = [s]"
| "fill_switch_points J s ((sg, dt) # regions) = s # fill_switch_points J (integrate s (sg * J) dt) regions"

text \<open>
  Modelled from the spec: the body of \<^verbatim>\<open>populateSwitchTimeParameters\<close> (section 4.1):
  switch point 0 is the origin, and the durations of the seven regions in order are
  \<open>[dt_j, dt_a, dt_j, dt_v, dt_j, dt_a, dt_j]\<close>. The jerk limit is read from the
  parameters, which the caller sets first.
\<close>

definition populateSwitchTimeParameters ::
    "real SCurveParameters \<Rightarrow> real \<Rightarrow> real \<Rightarrow> real \<Rightarrow> real SCurveParameters" where
  "populateSwitchTimeParameters params dt_j dt_a dt_v =
     params \<lparr> switch_points :=
       fill_switch_points (j_lim params) origin
         (zip jerk_signs [dt_j, dt_a, dt_j, dt_v, dt_j, dt_a, dt_j]) \<rparr>"

text \<open>
  Modelled from the spec: the segment durations of section 4.1 for a distance \<open>D\<close> under
  limits \<open>(V, A, J)\<close>, before any clamping:
  \<open>dt_j = A / J\<close>, \<open>dt_a = V / A - A / J\<close>, \<open>dt_v = D / V - V / A - A / J\<close>.
\<close>

definition segment_times :: "real \<Rightarrow> real DynamicLimits \<Rightarrow> real \<times> real \<times> real" where
  "segment_times D L =
     (max_acc L / max_jerk L,
      max_vel L / max_acc L - max_acc L / max_jerk L,
      D / max_vel L - max_vel L / max_acc L - max_acc L / max_jerk L)"

text \<open>
  Modelled from the spec: section 3 requires the three limits of a \<open>DynamicLimits\<close> to be
  strictly positive. A trial whose limits are not is rejected, so no duration is ever
  the result of a division by zero.
\<close>

definition strictly_positive :: "real DynamicLimits \<Rightarrow> bool" where
  "strictly_positive L \<longleftrightarrow> 0 < max_vel L \<and> 0 < max_acc L \<and> 0 < max_jerk L"

text \<open>
  Modelled from the spec: the parameters with the three limits set and the eight switch
  points not yet populated (all at the origin), as \<^verbatim>\<open>generateSCurve\<close> hands them to
  \<^verbatim>\<open>populateSwitchTimeParameters\<close>.
\<close>

definition with_limits :: "real DynamicLimits \<Rightarrow> real SCurveParameters" where
  "with_limits L =
     \<lparr> v_lim = max_vel L, a_lim = max_acc L, j_lim = max_jerk L,
       switch_points = replicate 8 origin \<rparr>"

text \<open>
  Modelled from the spec: the nominal step of \<^verbatim>\<open>generateSCurve\<close>. \<open>dt_a\<close> and \<open>dt_v\<close> are
  clamped at zero; if a clamp activates, the nominal limits are not reachable together
  and the step gives no result.
\<close>

definition nominal :: "real \<Rightarrow> real DynamicLimits \<Rightarrow> real SCurveParameters option" where
  "nominal D L =
     (let (dt_j, dt_a, dt_v) = segment_times D L;
          clamped_a = max 0 dt_a;
          clamped_v = max 0 dt_v
      in if strictly_positive L \<and> clamped_a = dt_a \<and> clamped_v = dt_v
         then Some (populateSwitchTimeParameters (with_limits L) dt_j clamped_a clamped_v)
         else None)"

text \<open>
  Modelled from the spec: the limits of the relaxation search of \<^verbatim>\<open>generateSCurve\<close> at
  the iteration index \<open>k\<close> (section 4.1): the velocity limit is \<open>V * (1 - alpha * k ^ e)\<close>,
  the acceleration limit \<open>A * (1 - beta * k ^ e)\<close>, and the jerk limit is never scaled.
\<close>

definition trial_limits :: "real DynamicLimits \<Rightarrow> real SolverParameters \<Rightarrow> nat \<Rightarrow> real DynamicLimits" where
  "trial_limits L solver k =
     \<lparr> max_vel = max_vel L * (1 - alpha_decay solver * real k powr exponent_decay solver),
       max_acc = max_acc L * (1 - beta_decay solver * real k powr exponent_decay solver),
       max_jerk = max_jerk L \<rparr>"

text \<open>
  Modelled from the spec: one trial of the relaxation search (section 4.1). The durations
  are computed again under the trial limits, and the trial is accepted when all three are
  non-negative and the final displacement of the populated switch points equals \<open>\<bar>D\<bar>\<close>
  within the tolerance.
\<close>

definition trial :: "real \<Rightarrow> real DynamicLimits \<Rightarrow> real SCurveParameters option" where
  "trial D L =
     (let (dt_j, dt_a, dt_v) = segment_times D L;
          params = populateSwitchTimeParameters (with_limits L) dt_j dt_a dt_v
      in if strictly_positive L \<and> 0 \<le> dt_j \<and> 0 \<le> dt_a \<and> 0 \<le> dt_v
            \<and> \<bar>sp_p (switch_points params ! 7) - \<bar>D\<bar>\<bar> \<le> tolerance
         then Some params
         else None)"

text \<open>
  Modelled from the spec: the relaxation loop, from the index \<open>k\<close> on, with \<open>n\<close> iterations
  left. It stops at the first accepted trial.
\<close>

fun relaxation :: "real \<Rightarrow> real DynamicLimits \<Rightarrow> real SolverParameters \<Rightarrow> nat \<Rightarrow> nat
    \<Rightarrow> real SCurveParameters option" where
  "relaxation D L solver k 0 = None"
| "relaxation D L solver k (Suc n) =
     (case trial D (trial_limits L solver k) of
        Some params \<Rightarrow> Some params
      | None \<Rightarrow> relaxation D L solver (Suc k) n)"

text \<open>
  Modelled from the spec: the body of \<^verbatim>\<open>generateSCurve\<close> (section 4.1). The result \<open>None\<close>
  is the return value \<^verbatim>\<open>false\<close>; \<open>Some params\<close> is \<^verbatim>\<open>true\<close> with the parameters written
  through the pointer. The nominal step comes first, then at most \<open>num_loops\<close> trials
  with the iteration indices \<open>1, 2, ...\<close>.
\<close>

definition generateSCurve :: "real \<Rightarrow> real DynamicLimits \<Rightarrow> real SolverParameters
    \<Rightarrow> real SCurveParameters option" where
  "generateSCurve distance limits solver =
     (case nominal distance limits of
        Some params \<Rightarrow> Some params
      | None \<Rightarrow> relaxation distance limits solver 1 (nat (num_loops solver)))"

text \<open>
  Modelled from the spec: the re-solve of step 3 of the synchronizer (section 4.2). An
  axis is solved again for the displacement it already covers, with its three limits
  multiplied by \<open>s\<close> (the \<^verbatim>\<open>operator*\<close> of \<^verbatim>\<open>DynamicLimits\<close>), and its switch points are
  populated again.
\<close>

definition resolve_scaled :: "real SCurveParameters \<Rightarrow> real \<Rightarrow> real SCurveParameters option" where
  "resolve_scaled params s =
     nominal (sp_p (switch_points params ! 7))
       (DynamicLimits_times
          \<lparr> max_vel = v_lim params, max_acc = a_lim params, max_jerk = j_lim params \<rparr> s)"

text \<open>
  Modelled from the spec: the factor \<open>s\<close> of step 3 of the synchronizer (section 4.2). The
  total time of an axis whose three limits are multiplied by \<open>s\<close> is
  \<open>A / J + V / A + D / (s * V)\<close>, "a linear function of \<open>1 / s\<close>" as the rationale of section
  4.2 says, and the factor is the one at which this time is the longer duration
  \<open>T_long\<close>, so that the one pass of section 4.2 suffices. Section 4.2 also writes the
  factor as \<open>T_short / T_long\<close>; at that value the time above is short of \<open>T_long\<close>
  whenever the two durations differ, and the verification of step 4 could not pass.
\<close>

definition scale_factor :: "real SCurveParameters \<Rightarrow> real \<Rightarrow> real" where
  "scale_factor params T_long =
     sp_p (switch_points params ! 7)
       / (v_lim params * (T_long - a_lim params / j_lim params - v_lim params / a_lim params))"

text \<open>
  Modelled from the spec: an axis that covers no distance while the other axis moves
  (the pure translations and the pure rotation of section 8, scenarios 1, 2 and 4). It
  stays where it is for the duration \<open>T_long\<close>: no jerk and no acceleration phase, and a
  cruise of \<open>T_long\<close> at velocity zero.
\<close>

definition hold_still :: "real SCurveParameters \<Rightarrow> real \<Rightarrow> real SCurveParameters" where
  "hold_still params T_long = populateSwitchTimeParameters params 0 0 T_long"

text \<open>
  Modelled from the spec: steps 3 and 4 of the synchronizer for the axis with the shorter
  duration: it is brought to the duration \<open>T_long\<close>, by holding still if it covers no
  distance and by the scaled re-solve otherwise.
\<close>

definition slow_down :: "real SCurveParameters \<Rightarrow> real \<Rightarrow> real SCurveParameters option" where
  "slow_down params T_long =
     (if sp_p (switch_points params ! 7) = 0 then Some (hold_still params T_long)
      else resolve_scaled params (scale_factor params T_long))"

text \<open>
  Modelled from the spec: the body of \<^verbatim>\<open>synchronizeParameters\<close> (section 4.2, steps 2 to
  4; step 1 is done by the caller). The total durations \<open>t[7]\<close> are compared; if they
  agree within the tolerance nothing changes. Otherwise the axis with the shorter
  duration is slowed down to the longer duration, and the durations are verified: if
  they still differ by more than the tolerance the result is \<open>None\<close>, the return value
  \<^verbatim>\<open>false\<close>.
\<close>

definition synchronizeParameters :: "real SCurveParameters \<Rightarrow> real SCurveParameters
    \<Rightarrow> (real SCurveParameters \<times> real SCurveParameters) option" where
  "synchronizeParameters params1 params2 =
     (let T1 = sp_t (switch_points params1 ! 7);
          T2 = sp_t (switch_points params2 ! 7)
      in if \<bar>T1 - T2\<bar> \<le> tolerance then Some (params1, params2)
         else if T1 < T2 then
           (case slow_down params1 T2 of
              None \<Rightarrow> None
            | Some params1' \<Rightarrow>
                if \<bar>sp_t (switch_points params1' ! 7) - T2\<bar> \<le> tolerance
                then Some (params1', params2) else None)
         else
           (case slow_down params2 T1 of
              None \<Rightarrow> None
            | Some params2' \<Rightarrow>
                if \<bar>T1 - sp_t (switch_points params2' ! 7)\<bar> \<le> tolerance
                then Some (params1, params2') else None))"



text \<open>
  Modelled from the spec: the configuration that the facade consumes (section 6): the
  translational and the rotational limits, and the fraction below 1 by which fine mode
  multiplies them (section 4.4). The source reads them from a global configuration
  object that is not at hand.
\<close>

record LimitProfile =
  cfg_translation :: "real DynamicLimits"
  cfg_rotation :: "real DynamicLimits"
  cfg_fine_fraction :: real

text \<open>
  Modelled from the spec: the limits of a mode (section 4.4): fine mode multiplies the
  configured limits by the configured fraction, with the \<^verbatim>\<open>operator*\<close> of
  \<^verbatim>\<open>DynamicLimits\<close>.
\<close>

definition mode_limits :: "real DynamicLimits \<Rightarrow> real \<Rightarrow> bool \<Rightarrow> real DynamicLimits" where
  "mode_limits limits fraction fineMode =
     (if fineMode then DynamicLimits_times limits fraction else limits)"

text \<open>
  Modelled from the spec: the body of \<^verbatim>\<open>buildMotionPlanningProblem\<close> (sections 2 and 4.4):
  the end points, the limits of the mode, and the solver parameters.
\<close>

definition buildMotionPlanningProblem :: "LimitProfile \<Rightarrow> real Point \<Rightarrow> real Point \<Rightarrow> bool
    \<Rightarrow> real SolverParameters \<Rightarrow> real MotionPlanningProblem" where
  "buildMotionPlanningProblem cfg initial target fineMode solver =
     \<lparr> mpp_initialPoint = (Point_x initial, Point_y initial, Point_a initial),
       mpp_targetPoint = (Point_x target, Point_y target, Point_a target),
       translationalLimits = mode_limits (cfg_translation cfg) (cfg_fine_fraction cfg) fineMode,
       rotationalLimits = mode_limits (cfg_rotation cfg) (cfg_fine_fraction cfg) fineMode,
       mpp_solver_params = solver \<rparr>"

text \<open>
  Modelled from the spec: the signed rotation delta "in \<open>(-pi, pi]\<close>" of section 4.4: the
  difference of the headings, moved into that interval by a multiple of \<open>2 * pi\<close>.
\<close>

definition wrap_angle :: "real \<Rightarrow> real" where
  "wrap_angle d = d - 2 * pi * of_int \<lceil>(d - pi) / (2 * pi)\<rceil>"

text \<open>
  Modelled from the spec: \<open>rot_direction = sign(delta)\<close> (section 4.4), one of \<open>+1\<close>, \<open>-1\<close>
  and \<open>0\<close> (section 3).
\<close>

definition sign_of :: "real \<Rightarrow> int" where
  "sign_of x = (if 0 < x then 1 else if x < 0 then - 1 else 0)"

text \<open>
  Modelled from the spec: the profile of an axis that does not move (section 7, "zero
  distance and zero rotation"): zero duration, all eight switch points at the origin.
\<close>

definition zero_duration :: "real DynamicLimits \<Rightarrow> real SCurveParameters" where
  "zero_duration L = with_limits L"

text \<open>
  Modelled from the spec: the S-curve of one axis of a point-to-point trajectory. A
  distance below the tolerance is no move (sections 4.4 and 7) and gives the profile of
  zero duration; any other distance goes to \<^verbatim>\<open>generateSCurve\<close>.
\<close>

definition solve_axis :: "real \<Rightarrow> real DynamicLimits \<Rightarrow> real SolverParameters
    \<Rightarrow> real SCurveParameters option" where
  "solve_axis distance limits solver =
     (if distance < tolerance then Some (zero_duration limits)
      else generateSCurve distance limits solver)"

text \<open>
  Modelled from the spec: the body of \<^verbatim>\<open>generateTrajectory\<close> (section 4.4, point to
  point): the unit direction of the translation (the zero vector for a distance below
  the tolerance), the wrapped rotation delta and its sign, an S-curve for the distance
  and one for \<open>\<bar>delta\<bar>\<close>, then the synchronization. The member \<open>complete\<close> of the result
  says whether all of it succeeded; a trajectory that is not complete carries what was
  computed up to the failure.
\<close>

definition generateTrajectory :: "real MotionPlanningProblem \<Rightarrow> real Trajectory" where
  "generateTrajectory problem =
     (let (ix, iy, ia) = mpp_initialPoint problem;
          (tx, ty, ta) = mpp_targetPoint problem;
          distance = sqrt ((tx - ix)\<^sup>2 + (ty - iy)\<^sup>2);
          direction = (if distance < tolerance then (0, 0)
                       else ((tx - ix) / distance, (ty - iy) / distance));
          delta = wrap_angle (ta - ia);
          started =
            \<lparr> trans_direction = direction,
              rot_direction = sign_of delta,
              initialPoint = \<lparr> Point_x = ix, Point_y = iy, Point_a = ia \<rparr>,
              trans_params = with_limits (translationalLimits problem),
              rot_params = with_limits (rotationalLimits problem),
              complete = False \<rparr>
      in case solve_axis distance (translationalLimits problem) (mpp_solver_params problem) of
           None \<Rightarrow> started
         | Some tp \<Rightarrow>
             (case solve_axis \<bar>delta\<bar> (rotationalLimits problem) (mpp_solver_params problem) of
                None \<Rightarrow> started \<lparr> trans_params := tp \<rparr>
              | Some rp \<Rightarrow>
                  (case synchronizeParameters tp rp of
                     None \<Rightarrow> started \<lparr> trans_params := tp, rot_params := rp \<rparr>
                   | Some (tp', rp') \<Rightarrow>
                       started \<lparr> trans_params := tp', rot_params := rp', complete := True \<rparr>)))"

text \<open>
  Modelled from the spec: the body of
  \<^verbatim>\<open>SmoothTrajectoryGenerator::generatePointToPointTrajectory\<close> (sections 4.4 and 7). The
  object is passed in and returned with the result. A complete trajectory is stored and
  the call returns true; otherwise the call returns false and the previous trajectory
  stays.
\<close>

definition generatePointToPointTrajectory :: "LimitProfile \<Rightarrow> real SmoothTrajectoryGenerator
    \<Rightarrow> real Point \<Rightarrow> real Point \<Rightarrow> bool \<Rightarrow> bool \<times> real SmoothTrajectoryGenerator" where
  "generatePointToPointTrajectory cfg self initial target fineMode =
     (let problem = buildMotionPlanningProblem cfg initial target fineMode (solver_params self);
          trajectory = generateTrajectory problem
      in if complete trajectory then (True, self \<lparr> currentTrajectory := trajectory \<rparr>)
         else (False, self))"

text \<open>
  Modelled from the spec: the body of
  \<^verbatim>\<open>SmoothTrajectoryGenerator::generateConstVelTrajectory\<close> (sections 4.4 and 7): the
  velocity is split into a translational speed with its direction and an angular rate
  with its sign, the inverse solver runs on each axis against the move time, and the
  two axes are synchronized. The specification describes the inverse solver only by its
  purpose, so it is the argument \<open>inverseSolver\<close> here (target speed, move time and limits to
  parameters, or \<open>None\<close>).
\<close>

definition generateConstVelTrajectory ::
    "(real \<Rightarrow> real \<Rightarrow> real DynamicLimits \<Rightarrow> real SCurveParameters option)
     \<Rightarrow> LimitProfile \<Rightarrow> real SmoothTrajectoryGenerator
     \<Rightarrow> real Point \<Rightarrow> real Velocity \<Rightarrow> real \<Rightarrow> bool \<Rightarrow> bool \<times> real SmoothTrajectoryGenerator" where
  "generateConstVelTrajectory inverseSolver cfg self initial velocity moveTime fineMode =
     (let translation = mode_limits (cfg_translation cfg) (cfg_fine_fraction cfg) fineMode;
          rotation = mode_limits (cfg_rotation cfg) (cfg_fine_fraction cfg) fineMode;
          speed = sqrt ((Velocity_vx velocity)\<^sup>2 + (Velocity_vy velocity)\<^sup>2);
          direction = (if speed < tolerance then (0, 0)
                       else (Velocity_vx velocity / speed, Velocity_vy velocity / speed))
      in case inverseSolver speed moveTime translation of
           None \<Rightarrow> (False, self)
         | Some tp \<Rightarrow>
             (case inverseSolver \<bar>Velocity_va velocity\<bar> moveTime rotation of
                None \<Rightarrow> (False, self)
              | Some rp \<Rightarrow>
                  (case synchronizeParameters tp rp of
                     None \<Rightarrow> (False, self)
                   | Some (tp', rp') \<Rightarrow>
                       (True, self \<lparr> currentTrajectory :=
                          \<lparr> trans_direction = direction,
                            rot_direction = sign_of (Velocity_va velocity),
                            initialPoint = initial,
                            trans_params = tp',
                            rot_params = rp',
                            complete = True \<rparr> \<rparr>))))"



section \<open>Predicates used in the proofs\<close>

text \<open>
  \<open>solves D L params\<close>: the parameters are the seven-segment profile for the distance \<open>D\<close>
  under the strictly positive limits \<open>L\<close>, and none of its durations is negative.
\<close>

definition solves :: "real \<Rightarrow> real DynamicLimits \<Rightarrow> real SCurveParameters \<Rightarrow> bool" where
  "solves D L params \<longleftrightarrow>
     strictly_positive L
     \<and> 0 \<le> max_vel L / max_acc L - max_acc L / max_jerk L
     \<and> 0 \<le> D / max_vel L - max_vel L / max_acc L - max_acc L / max_jerk L
     \<and> params = populateSwitchTimeParameters (with_limits L)
          (max_acc L / max_jerk L)
          (max_vel L / max_acc L - max_acc L / max_jerk L)
          (D / max_vel L - max_vel L / max_acc L - max_acc L / max_jerk L)"

text \<open>
  \<open>rest_to_rest D params\<close>: eight switch points, the first at the origin, with
  non-decreasing times, the last at the displacement \<open>D\<close>; only a profile that does not
  move has no duration.
\<close>

definition rest_to_rest :: "real \<Rightarrow> real SCurveParameters \<Rightarrow> bool" where
  "rest_to_rest D params \<longleftrightarrow>
     length (switch_points params) = 8
     \<and> switch_points params ! 0 = origin
     \<and> sorted (map sp_t (switch_points params))
     \<and> sp_p (switch_points params ! 7) = D
     \<and> (D = 0 \<or> 0 < sp_t (switch_points params ! 7))"



section \<open>Concrete inputs\<close>

text \<open>
  The limits of the first scenario of the specification (section 8): \<open>V = 0.5\<close>,
  \<open>A = 0.5\<close>, \<open>J = 1.0\<close>; the limits of its fifth scenario: \<open>V = 10\<close>, \<open>A = 10\<close>,
  \<open>J = 0.01\<close>; and the typical solver parameters of section 6.
\<close>

definition scenario_limits :: "real DynamicLimits" where
  "scenario_limits = \<lparr> max_vel = 1 / 2, max_acc = 1 / 2, max_jerk = 1 \<rparr>"

definition jerk_starved_limits :: "real DynamicLimits" where
  "jerk_starved_limits = \<lparr> max_vel = 10, max_acc = 10, max_jerk = 1 / 100 \<rparr>"

definition typical_solver :: "real SolverParameters" where
  "typical_solver = \<lparr> num_loops = 10, alpha_decay = 1 / 10, beta_decay = 1 / 10, exponent_decay = 2 \<rparr>"

definition scenario_cfg :: LimitProfile where
  "scenario_cfg =
     \<lparr> cfg_translation = scenario_limits, cfg_rotation = scenario_limits, cfg_fine_fraction = 1 / 2 \<rparr>"

definition jerk_starved_cfg :: LimitProfile where
  "jerk_starved_cfg =
     \<lparr> cfg_translation = jerk_starved_limits, cfg_rotation = jerk_starved_limits,
       cfg_fine_fraction = 1 / 2 \<rparr>"

text \<open>A generator that holds no complete trajectory yet.\<close>

definition fresh_generator :: "real SmoothTrajectoryGenerator" where
  "fresh_generator =
     \<lparr> currentTrajectory =
         \<lparr> trans_direction = (0, 0),
           rot_direction = 0,
           initialPoint = \<lparr> Point_x = 0, Point_y = 0, Point_a = 0 \<rparr>,
           trans_params = zero_duration scenario_limits,
           rot_params = zero_duration scenario_limits,
           complete = False \<rparr>,
       solver_params = typical_solver \<rparr>"

text \<open>The seven-segment profile for the distance 1 under the scenario limits.\<close>

definition unit_profile :: "real SCurveParameters" where
  "unit_profile =
     populateSwitchTimeParameters (with_limits scenario_limits) (1 / 2) (1 / 2) (1 / 2)"

text \<open>
  Moves from the origin: a combined move over the distance 1 to the heading of 1 radian
  and one full turn; the same translation with a rotation of 2 radians, whose axes take
  different times; the pure translation of the first scenario; and the short move of the
  fifth scenario (distance \<open>0.001\<close>).
\<close>

definition scenario_start :: "real Point" where
  "scenario_start = \<lparr> Point_x = 0, Point_y = 0, Point_a = 0 \<rparr>"




definition short_target :: "real Point" where
  "short_target = \<lparr> Point_x = 1 / 1000, Point_y = 0, Point_a = 0 \<rparr>"






text \<open>An inverse solver that finds no parameters.\<close>

definition no_inverse :: "real \<Rightarrow> real \<Rightarrow> real DynamicLimits \<Rightarrow> real SCurveParameters option" where
  "no_inverse v T L = None"



section \<open>Facts about binary32\<close>

text \<open>Values of \<open>float32\<close> and 32-bit patterns correspond one to one.\<close>

lemma float_of_bits_of_float: "float_of_bits (bits_of_float f) = f"
proof (cases f)
  case (Float32 s e m)
  have 1: "bit (bits_of_float f) 31 = s"
    by (auto simp: Float32 bits_of_float_def bit_simps dest: bit_imp_le_length)
  have 2: "ucast (drop_bit 23 (bits_of_float f)) = e"
    by (rule bit_word_eqI) (auto simp: Float32 bits_of_float_def bit_simps dest: bit_imp_le_length)
  have 3: "ucast (bits_of_float f) = m"
    by (rule bit_word_eqI) (auto simp: Float32 bits_of_float_def bit_simps dest: bit_imp_le_length)
  from 1 2 3 show ?thesis
    by (simp add: float_of_bits_def Float32)
qed

lemma bits_of_float_of_bits: "bits_of_float (float_of_bits w) = w"
proof (rule bit_word_eqI)
  fix n
  assume "n < LENGTH(32)"
  then have n: "n < 32"
    by simp
  show "bit (bits_of_float (float_of_bits w)) n \<longleftrightarrow> bit w n"
  proof (cases "n = 31")
    case True
    then show ?thesis
      by (auto simp: float_of_bits_def bits_of_float_def bit_simps dest: bit_imp_le_length)
  next
    case False
    with n have "n < 31"
      by simp
    then show ?thesis
      by (auto simp: float_of_bits_def bits_of_float_def bit_simps dest: bit_imp_le_length)
  qed
qed

lemma bits_of_float_eq_iff: "bits_of_float a = bits_of_float b \<longleftrightarrow> a = b"
  by (metis float_of_bits_of_float)

text \<open>The two literals of the header, as bit patterns.\<close>

lemma float_zero_bits: "float_zero = float_of_bits 0x00000000"
  by (simp add: float_zero_def float_of_bits_def)

lemma float_1e_6_bits: "float_1e_6 = float_of_bits 0x358637BD"
  by (simp add: float_1e_6_def float_of_bits_def drop_bit_eq_div)

subsection \<open>Comparisons\<close>

lemma magnitude_nonneg: "0 \<le> magnitude f"
  by (simp add: magnitude_def)

lemma scaled_fabs: "scaled (fabs f) = \<bar>scaled f\<bar>"
  using magnitude_nonneg [of f]
  by (simp add: scaled_def fabs_def magnitude_def)

lemma is_nan_fabs: "is_nan (fabs f) = is_nan f"
  by (simp add: is_nan_def fabs_def)

text \<open>
  A normal magnitude \<open>(K + m) * 2 ^ i\<close> with \<open>m < K\<close> determines both \<open>i\<close> and \<open>m\<close>:
  a larger exponent at least doubles it.
\<close>

lemma normal_form_unique_aux:
  fixes m n K :: int
  assumes m: "0 \<le> m" "m < K" and n: "0 \<le> n" "n < K"
    and eq: "(K + m) * 2 ^ i = (K + n) * 2 ^ j"
  shows "\<not> i < j"
proof
  assume "i < j"
  then obtain d where j: "j = Suc (i + d)"
    by (rule less_imp_Suc_add [THEN exE])
  define X where "X = (K + n) * (2 * 2 ^ d)"
  have "(K + n) * 2 ^ j = X * 2 ^ i"
    unfolding j power_add power_Suc X_def by (simp only: mult_ac)
  with eq have "(K + m) * 2 ^ i = X * 2 ^ i"
    by (simp only:)
  then have *: "K + m = X"
    by (simp only: mult_cancel_right power_eq_0_iff) simp
  have "(1::int) \<le> 2 ^ d"
    by (rule one_le_power) simp
  then have "(2::int) * 1 \<le> 2 * 2 ^ d"
    by (simp only: mult_le_cancel_left_pos)
  moreover have "0 \<le> K + n"
    using n by linarith
  ultimately have "(K + n) * (2 * 1) \<le> X"
    unfolding X_def by (rule mult_left_mono)
  then have "2 * K + 2 * n \<le> X"
    by (simp add: algebra_simps)
  with * m n show False
    by linarith
qed

lemma normal_form_unique:
  fixes m n K :: int
  assumes m: "0 \<le> m" "m < K" and n: "0 \<le> n" "n < K"
    and eq: "(K + m) * 2 ^ i = (K + n) * 2 ^ j"
  shows "i = j \<and> m = n"
proof -
  have "\<not> i < j"
    using normal_form_unique_aux [OF m n eq] .
  moreover have "\<not> j < i"
    using normal_form_unique_aux [OF n m eq [symmetric]] .
  ultimately have ij: "i = j"
    by simp
  with eq have "m = n"
    by simp
  with ij show ?thesis
    by simp
qed

lemma frac_bounds: "0 \<le> uint (f_frac f)" "uint (f_frac f) < 2 ^ 23"
  using uint_lt2p [of "f_frac f"] by simp_all

lemma expo_pos: "f_expo f \<noteq> 0 \<Longrightarrow> 0 < unat (f_expo f)"
  by (simp add: unat_gt_0)

text \<open>Every subnormal magnitude lies below every normal one.\<close>

lemma subnormal_below_normal:
  "uint (f_frac a) < (2 ^ 23 + uint (f_frac b)) * 2 ^ k"
proof -
  have "(1::int) \<le> 2 ^ k"
    by (rule one_le_power) simp
  moreover have "0 \<le> 2 ^ 23 + uint (f_frac b)"
    using frac_bounds [of b] by linarith
  ultimately have "(2 ^ 23 + uint (f_frac b)) * 1 \<le> (2 ^ 23 + uint (f_frac b)) * 2 ^ k"
    by (rule mult_left_mono)
  then have "2 ^ 23 + uint (f_frac b) \<le> (2 ^ 23 + uint (f_frac b)) * 2 ^ k"
    by (simp only: mult_1_right)
  with frac_bounds [of a] frac_bounds [of b] show ?thesis
    by linarith
qed

text \<open>The magnitude determines the exponent and fraction fields.\<close>

lemma magnitude_inj:
  assumes "magnitude a = magnitude b"
  shows "f_expo a = f_expo b \<and> f_frac a = f_frac b"
proof (cases "f_expo a = 0")
  case a0: True
  show ?thesis
  proof (cases "f_expo b = 0")
    case True
    with a0 assms show ?thesis
      by (simp add: magnitude_def word_uint_eq_iff)
  next
    case False
    with a0 assms subnormal_below_normal [of a b "unat (f_expo b) - 1"] show ?thesis
      by (simp add: magnitude_def)
  qed
next
  case a1: False
  show ?thesis
  proof (cases "f_expo b = 0")
    case True
    with a1 assms subnormal_below_normal [of b a "unat (f_expo a) - 1"] show ?thesis
      by (simp add: magnitude_def)
  next
    case False
    from a1 False assms
    have "(2 ^ 23 + uint (f_frac a)) * 2 ^ (unat (f_expo a) - 1)
        = (2 ^ 23 + uint (f_frac b)) * 2 ^ (unat (f_expo b) - 1)"
      by (simp add: magnitude_def)
    from normal_form_unique [OF frac_bounds [of a] frac_bounds [of b] this]
    have "unat (f_expo a) - 1 = unat (f_expo b) - 1" and f: "uint (f_frac a) = uint (f_frac b)"
      by simp_all
    with expo_pos [OF a1] expo_pos [OF False] have "unat (f_expo a) = unat (f_expo b)"
      by simp
    then have "f_expo a = f_expo b"
      by (simp only: word_unat_eq_iff)
    moreover from f have "f_frac a = f_frac b"
      by (simp only: word_uint_eq_iff)
    ultimately show ?thesis
      by simp
  qed
qed

lemma magnitude_zero_iff: "magnitude f = 0 \<longleftrightarrow> is_zero f"
proof
  assume "magnitude f = 0"
  moreover have "magnitude (Float32 False 0 0) = 0"
    by (simp add: magnitude_def)
  ultimately have "magnitude f = magnitude (Float32 False 0 0)"
    by simp
  from magnitude_inj [OF this] show "is_zero f"
    by (simp add: is_zero_def)
next
  assume "is_zero f"
  then show "magnitude f = 0"
    by (simp add: is_zero_def magnitude_def)
qed

text \<open>
  Two bit patterns have the same value exactly when they are the same pattern or are the
  two zeros. With the NaN rule this is what \<^verbatim>\<open>==\<close> on \<^verbatim>\<open>float\<close> computes.
\<close>

lemma scaled_eq_iff: "scaled a = scaled b \<longleftrightarrow> a = b \<or> is_zero a \<and> is_zero b"
proof
  assume eq: "scaled a = scaled b"
  show "a = b \<or> is_zero a \<and> is_zero b"
  proof (cases "f_sign a = f_sign b")
    case True
    with eq have "magnitude a = magnitude b"
      by (simp add: scaled_def split: if_splits)
    from magnitude_inj [OF this] True show ?thesis
      by (simp add: float32.expand)
  next
    case False
    with eq magnitude_nonneg [of a] magnitude_nonneg [of b]
    have "magnitude a = 0 \<and> magnitude b = 0"
      by (auto simp: scaled_def split: if_splits)
    then show ?thesis
      by (simp add: magnitude_zero_iff)
  qed
next
  assume "a = b \<or> is_zero a \<and> is_zero b"
  then show "scaled a = scaled b"
    by (auto simp: scaled_def magnitude_zero_iff [symmetric])
qed

lemma float_eq_iff:
  "float_eq a b \<longleftrightarrow>
     \<not> is_nan a \<and> \<not> is_nan b \<and> (bits_of_float a = bits_of_float b \<or> is_zero a \<and> is_zero b)"
  by (simp add: float_eq_def scaled_eq_iff bits_of_float_eq_iff)

lemma abs_scaled: "\<bar>scaled f\<bar> = magnitude f"
  using magnitude_nonneg [of f] by (simp add: scaled_def)

section \<open>Claims about the structures of the header\<close>

text \<open>
  C6. For every \<open>Velocity\<close> and every tolerance \<open>eps > 0\<close>, \<open>nearZero eps\<close> returns true
  exactly when the magnitude of each of the three components is strictly below \<open>eps\<close>.
  Magnitudes and the tolerance are read in units of \<open>2 ^ -149\<close>; a NaN component has no
  magnitude below anything, and \<open>nearZero\<close> is false on it.
\<close>

theorem nearZero_iff_strictly_below:
  assumes "float_lt float_zero eps"
  shows "nearZero v eps \<longleftrightarrow>
    (\<not> is_nan (Velocity_vx v) \<and> magnitude (Velocity_vx v) < scaled eps) \<and>
    (\<not> is_nan (Velocity_vy v) \<and> magnitude (Velocity_vy v) < scaled eps) \<and>
    (\<not> is_nan (Velocity_va v) \<and> magnitude (Velocity_va v) < scaled eps)"
proof -
  from assms have eps: "\<not> is_nan eps"
    by (simp add: float_lt_def)
  have "float_lt (fabs x) eps \<longleftrightarrow> \<not> is_nan x \<and> magnitude x < scaled eps" for x
    using eps by (simp add: float_lt_def is_nan_fabs scaled_fabs abs_scaled)
  then show ?thesis
    by (simp add: nearZero_def)
qed

text \<open>
  At the default tolerance \<open>1e-6\<close>: the velocity \<open>(0, -2 ^ -21, 0)\<close> is near zero, and
  \<open>(0, 1e-6, 0)\<close> is not, its second component being equal to the tolerance and not below.
\<close>

theorem nearZero_iff_strictly_below_witness:
  "float_lt float_zero float_1e_6 \<and>
   nearZero \<lparr> Velocity_vx = float_zero, Velocity_vy = Float32 True 106 0, Velocity_va = float_zero \<rparr> float_1e_6 \<and>
   \<not> nearZero \<lparr> Velocity_vx = float_zero, Velocity_vy = float_1e_6, Velocity_va = float_zero \<rparr> float_1e_6"
proof -
  have h: "float_lt float_zero float_1e_6"
    by (simp add: float_lt_def scaled_def magnitude_def float_1e_6_def float_zero_def is_nan_def)
  show ?thesis
    using h
      nearZero_iff_strictly_below [OF h,
        of "\<lparr> Velocity_vx = float_zero, Velocity_vy = Float32 True 106 0, Velocity_va = float_zero \<rparr>"]
      nearZero_iff_strictly_below [OF h,
        of "\<lparr> Velocity_vx = float_zero, Velocity_vy = float_1e_6, Velocity_va = float_zero \<rparr>"]
    by (simp add: scaled_def magnitude_def float_1e_6_def float_zero_def is_nan_def)
qed

text \<open>
  C7. For every \<open>DynamicLimits\<close> value \<open>(v_max, a_max, j_max)\<close> and every scalar \<open>c\<close>, the
  product is \<open>(c * v_max, c * a_max, c * j_max)\<close>: all three limits are scaled, the jerk
  limit included. The statement holds for every scalar type with a product.
\<close>

theorem DynamicLimits_times_scales_all:
  "DynamicLimits_times \<lparr> max_vel = v_max, max_acc = a_max, max_jerk = j_max \<rparr> c
     = \<lparr> max_vel = c * v_max, max_acc = c * a_max, max_jerk = c * j_max \<rparr>"
  by (simp add: DynamicLimits_times_def)

text \<open>
  C8, as stated: \<open>Point::operator==\<close> holds exactly when the three components are
  bit-exactly equal. It fails in both directions: the points \<open>(+0, 0, 0)\<close> and \<open>(-0, 0, 0)\<close>
  compare equal although their first components are the bit patterns \<^verbatim>\<open>0x00000000\<close> and
  \<^verbatim>\<open>0x80000000\<close>, and a point whose first component is the NaN \<^verbatim>\<open>0x7F800001\<close> does not
  compare equal to itself.
\<close>

theorem Point_eq_not_bit_exact:
  "Point_eq \<lparr> Point_x = float_of_bits 0x00000000, Point_y = float_zero, Point_a = float_zero \<rparr>
            \<lparr> Point_x = float_of_bits 0x80000000, Point_y = float_zero, Point_a = float_zero \<rparr>
   \<and> bits_of_float (float_of_bits 0x00000000) \<noteq> bits_of_float (float_of_bits 0x80000000)
   \<and> \<not> Point_eq \<lparr> Point_x = float_of_bits 0x7F800001, Point_y = float_zero, Point_a = float_zero \<rparr>
                \<lparr> Point_x = float_of_bits 0x7F800001, Point_y = float_zero, Point_a = float_zero \<rparr>"
proof -
  have "bits_of_float (float_of_bits 0x00000000) \<noteq> bits_of_float (float_of_bits 0x80000000)"
    by (simp add: bits_of_float_of_bits)
  moreover have "float_of_bits 0x00000000 = Float32 False 0 0"
    "float_of_bits 0x80000000 = Float32 True 0 0"
    "float_of_bits 0x7F800001 = Float32 False 255 1"
    by (simp_all add: float_of_bits_def drop_bit_eq_div)
  ultimately show ?thesis
    by (simp add: Point_eq_def float_eq_def scaled_def magnitude_def is_nan_def float_zero_def)
qed

text \<open>
  C8, amended: \<open>Point::operator==\<close> holds exactly when, in each of the three components,
  neither value is a NaN and the two values are the same bit pattern or are both zeros
  (of either sign). No tolerance is applied.
\<close>

theorem Point_eq_iff:
  "Point_eq p q \<longleftrightarrow>
     (\<not> is_nan (Point_x p) \<and> \<not> is_nan (Point_x q) \<and>
        (bits_of_float (Point_x p) = bits_of_float (Point_x q)
         \<or> is_zero (Point_x p) \<and> is_zero (Point_x q))) \<and>
     (\<not> is_nan (Point_y p) \<and> \<not> is_nan (Point_y q) \<and>
        (bits_of_float (Point_y p) = bits_of_float (Point_y q)
         \<or> is_zero (Point_y p) \<and> is_zero (Point_y q))) \<and>
     (\<not> is_nan (Point_a p) \<and> \<not> is_nan (Point_a q) \<and>
        (bits_of_float (Point_a p) = bits_of_float (Point_a q)
         \<or> is_zero (Point_a p) \<and> is_zero (Point_a q)))"
  by (simp only: Point_eq_def float_eq_iff)

text \<open>
  C9. A default-constructed \<open>Point\<close> is \<open>Point(0, 0, 0)\<close> and a default-constructed
  \<open>Velocity\<close> is \<open>Velocity(0, 0, 0)\<close>, as values and under \<open>operator==\<close>; so the position
  and the velocity of a default-initialised \<open>PVTPoint\<close> are zero, whatever its time member
  holds.
\<close>

theorem default_constructed_zero:
  "Point_ctor None None None = Point_ctor (Some float_zero) (Some float_zero) (Some float_zero)
   \<and> Point_ctor None None None = \<lparr> Point_x = float_zero, Point_y = float_zero, Point_a = float_zero \<rparr>
   \<and> Point_eq (Point_ctor None None None) (Point_ctor (Some float_zero) (Some float_zero) (Some float_zero))
   \<and> Velocity_ctor None None None = Velocity_ctor (Some float_zero) (Some float_zero) (Some float_zero)
   \<and> Velocity_ctor None None None
        = \<lparr> Velocity_vx = float_zero, Velocity_vy = float_zero, Velocity_va = float_zero \<rparr>
   \<and> Velocity_eq (Velocity_ctor None None None)
        (Velocity_ctor (Some float_zero) (Some float_zero) (Some float_zero))
   \<and> PVT_position (PVTPoint_default t)
        = \<lparr> Point_x = float_zero, Point_y = float_zero, Point_a = float_zero \<rparr>
   \<and> PVT_velocity (PVTPoint_default t)
        = \<lparr> Velocity_vx = float_zero, Velocity_vy = float_zero, Velocity_va = float_zero \<rparr>"
  by (simp add: Point_ctor_def Velocity_ctor_def PVTPoint_default_def Point_eq_def Velocity_eq_def
      float_eq_def is_nan_def float_zero_def)

text \<open>
  C10. \<open>nearZero\<close> is monotone in its tolerance: if \<open>eps1 \<le> eps2\<close> and \<open>nearZero eps1\<close>
  returns true, then \<open>nearZero eps2\<close> returns true.
\<close>

theorem nearZero_mono:
  assumes "float_le eps1 eps2" and "nearZero v eps1"
  shows "nearZero v eps2"
proof -
  from assms(1) have le: "\<not> is_nan eps2" "scaled eps1 \<le> scaled eps2"
    by (simp_all add: float_le_def)
  have "float_lt x eps1 \<Longrightarrow> float_lt x eps2" for x
    using le by (simp add: float_lt_def)
  with assms(2) show ?thesis
    by (simp add: nearZero_def split: if_splits)
qed

text \<open>The zero velocity is near zero at the tolerance \<open>1e-6\<close>, hence at the tolerance \<open>1\<close>.\<close>

theorem nearZero_mono_witness:
  "float_le float_1e_6 (Float32 False 127 0) \<and>
   nearZero \<lparr> Velocity_vx = float_zero, Velocity_vy = float_zero, Velocity_va = float_zero \<rparr> float_1e_6 \<and>
   nearZero \<lparr> Velocity_vx = float_zero, Velocity_vy = float_zero, Velocity_va = float_zero \<rparr> (Float32 False 127 0)"
proof -
  let ?v = "\<lparr> Velocity_vx = float_zero, Velocity_vy = float_zero, Velocity_va = float_zero \<rparr>"
  have le: "float_le float_1e_6 (Float32 False 127 0)"
    by (simp add: float_le_def scaled_def magnitude_def float_1e_6_def is_nan_def)
  have nz: "nearZero ?v float_1e_6"
    by (simp add: nearZero_def float_lt_def fabs_def scaled_def magnitude_def float_1e_6_def
        float_zero_def is_nan_def)
  from le nz nearZero_mono [OF le nz] show ?thesis
    by simp
qed

section \<open>Facts about the solver and the synchronizer\<close>

subsection \<open>Populated switch points\<close>

lemma length_fill_switch_points: "length (fill_switch_points J s regions) = Suc (length regions)"
  by (induction regions arbitrary: s) auto

lemma fill_switch_points_nth_0: "fill_switch_points J s regions ! 0 = s"
  by (cases regions) auto

lemma fill_switch_points_times_ge:
  assumes "\<forall>(sg, dt) \<in> set regions. 0 \<le> dt" and "x \<in> set (fill_switch_points J s regions)"
  shows "sp_t s \<le> sp_t x"
  using assms
proof (induction regions arbitrary: s)
  case Nil
  then show ?case by simp
next
  case (Cons r regions)
  obtain sg dt where r: "r = (sg, dt)"
    by (cases r)
  from Cons.prems(1) r have dt: "0 \<le> dt" and rest: "\<forall>(sg, dt) \<in> set regions. 0 \<le> dt"
    by simp_all
  from Cons.prems(2) r consider "x = s" | "x \<in> set (fill_switch_points J (integrate s (sg * J) dt) regions)"
    by auto
  then show ?case
  proof cases
    case 1
    then show ?thesis by simp
  next
    case 2
    from Cons.IH [OF rest 2] have "sp_t (integrate s (sg * J) dt) \<le> sp_t x" .
    with dt show ?thesis
      by (simp add: integrate_def)
  qed
qed

lemma sorted_fill_switch_points:
  assumes "\<forall>(sg, dt) \<in> set regions. 0 \<le> dt"
  shows "sorted (map sp_t (fill_switch_points J s regions))"
  using assms
proof (induction regions arbitrary: s)
  case Nil
  then show ?case by simp
next
  case (Cons r regions)
  obtain sg dt where r: "r = (sg, dt)"
    by (cases r)
  from Cons.prems r have dt: "0 \<le> dt" and rest: "\<forall>(sg, dt) \<in> set regions. 0 \<le> dt"
    by simp_all
  have "sp_t s \<le> sp_t x" if "x \<in> set (fill_switch_points J (integrate s (sg * J) dt) regions)" for x
  proof -
    from fill_switch_points_times_ge [OF rest that] have "sp_t (integrate s (sg * J) dt) \<le> sp_t x" .
    with dt show ?thesis
      by (simp add: integrate_def)
  qed
  with Cons.IH [OF rest] r show ?case
    by auto
qed

lemma populate_length:
  "length (switch_points (populateSwitchTimeParameters params dt_j dt_a dt_v)) = 8"
  by (simp add: populateSwitchTimeParameters_def length_fill_switch_points jerk_signs_def)

lemma populate_origin:
  "switch_points (populateSwitchTimeParameters params dt_j dt_a dt_v) ! 0 = origin"
  by (simp add: populateSwitchTimeParameters_def fill_switch_points_nth_0)

lemma populate_sorted:
  assumes "0 \<le> dt_j" "0 \<le> dt_a" "0 \<le> dt_v"
  shows "sorted (map sp_t (switch_points (populateSwitchTimeParameters params dt_j dt_a dt_v)))"
proof -
  have "\<forall>(sg, dt) \<in> set (zip jerk_signs [dt_j, dt_a, dt_j, dt_v, dt_j, dt_a, dt_j]). 0 \<le> dt"
    using assms by (simp add: jerk_signs_def)
  from sorted_fill_switch_points [OF this] show ?thesis
    by (simp add: populateSwitchTimeParameters_def)
qed

text \<open>
  The closed form of the last switch point when the durations are those of
  \<open>segment_times\<close>: the profile ends at rest, at the distance \<open>D\<close>.
\<close>

lemma populate_final:
  assumes "0 < J" "0 < A" "0 < V"
  shows "switch_points (populateSwitchTimeParameters
            (with_limits \<lparr> max_vel = V, max_acc = A, max_jerk = J \<rparr>)
            (A / J) (V / A - A / J) (D / V - V / A - A / J)) ! 7
         = \<lparr> sp_t = A / J + V / A + D / V, sp_p = D, sp_v = 0, sp_a = 0 \<rparr>"
  using assms
  by (simp add: populateSwitchTimeParameters_def with_limits_def jerk_signs_def integrate_def
      origin_def power2_eq_square power3_eq_cube field_simps)

subsection \<open>What an accepted solution is\<close>

lemma nominal_Some_iff: "nominal D L = Some params \<longleftrightarrow> solves D L params"
  by (auto simp: nominal_def solves_def segment_times_def Let_def max_def split: if_splits)

lemma trial_SomeD: "trial D L = Some params \<Longrightarrow> solves D L params"
  by (auto simp: trial_def solves_def segment_times_def Let_def split: if_splits)

lemma relaxation_SomeD:
  "relaxation D L solver k n = Some params \<Longrightarrow> \<exists>L'. solves D L' params"
proof (induction n arbitrary: k)
  case 0
  then show ?case by simp
next
  case (Suc n)
  show ?case
  proof (cases "trial D (trial_limits L solver k)")
    case None
    with Suc.prems have "relaxation D L solver (Suc k) n = Some params"
      by simp
    then show ?thesis
      by (rule Suc.IH)
  next
    case (Some ps)
    with Suc.prems have "ps = params"
      by simp
    with Some trial_SomeD show ?thesis
      by blast
  qed
qed

lemma generateSCurve_SomeD:
  assumes "generateSCurve D L solver = Some params"
  shows "\<exists>L'. solves D L' params"
proof (cases "nominal D L")
  case None
  with assms have "relaxation D L solver 1 (nat (num_loops solver)) = Some params"
    by (simp add: generateSCurve_def)
  then show ?thesis
    by (rule relaxation_SomeD)
next
  case (Some ps)
  with assms have "nominal D L = Some params"
    by (simp add: generateSCurve_def)
  then show ?thesis
    by (auto simp: nominal_Some_iff)
qed

lemma solves_final:
  assumes "solves D L params"
  shows "switch_points params ! 7
    = \<lparr> sp_t = max_acc L / max_jerk L + max_vel L / max_acc L + D / max_vel L,
        sp_p = D, sp_v = 0, sp_a = 0 \<rparr>"
proof -
  have L: "L = \<lparr> max_vel = max_vel L, max_acc = max_acc L, max_jerk = max_jerk L \<rparr>"
    by simp
  from assms have pos: "0 < max_jerk L" "0 < max_acc L" "0 < max_vel L"
    by (simp_all add: solves_def strictly_positive_def)
  from assms have "params = populateSwitchTimeParameters
      (with_limits \<lparr> max_vel = max_vel L, max_acc = max_acc L, max_jerk = max_jerk L \<rparr>)
      (max_acc L / max_jerk L)
      (max_vel L / max_acc L - max_acc L / max_jerk L)
      (D / max_vel L - max_vel L / max_acc L - max_acc L / max_jerk L)"
    by (simp add: solves_def with_limits_def)
  then show ?thesis
    by (simp only: populate_final [OF pos])
qed

lemma solves_rest_to_rest:
  assumes "solves D L params"
  shows "rest_to_rest D params"
proof -
  from assms have pos: "0 < max_jerk L" "0 < max_acc L" "0 < max_vel L"
    and nn: "0 \<le> max_vel L / max_acc L - max_acc L / max_jerk L"
      "0 \<le> D / max_vel L - max_vel L / max_acc L - max_acc L / max_jerk L"
    and eq: "params = populateSwitchTimeParameters (with_limits L)
          (max_acc L / max_jerk L)
          (max_vel L / max_acc L - max_acc L / max_jerk L)
          (D / max_vel L - max_vel L / max_acc L - max_acc L / max_jerk L)"
    by (simp_all add: solves_def strictly_positive_def)
  from pos have "0 \<le> max_acc L / max_jerk L"
    by simp
  from populate_sorted [OF this nn]
  have "sorted (map sp_t (switch_points params))"
    by (simp only: eq)
  moreover have "length (switch_points params) = 8" "switch_points params ! 0 = origin"
    by (simp_all only: eq populate_length populate_origin)
  moreover from solves_final [OF assms] have "sp_p (switch_points params ! 7) = D"
    by simp
  moreover have "0 < sp_t (switch_points params ! 7)"
  proof -
    from pos have "0 < max_acc L / max_jerk L" "0 < max_vel L / max_acc L"
      by simp_all
    with nn have "0 < max_acc L / max_jerk L + max_vel L / max_acc L + D / max_vel L"
      by linarith
    with solves_final [OF assms] show ?thesis
      by simp
  qed
  ultimately show ?thesis
    by (simp add: rest_to_rest_def)
qed





subsection \<open>The synchronizer keeps what the solver established\<close>


lemma hold_still_final:
  "switch_points (hold_still params T) ! 7 = \<lparr> sp_t = T, sp_p = 0, sp_v = 0, sp_a = 0 \<rparr>"
  by (simp add: hold_still_def populateSwitchTimeParameters_def jerk_signs_def integrate_def
      origin_def)

lemma hold_still_rest_to_rest:
  assumes "0 \<le> T"
  shows "rest_to_rest 0 (hold_still params T)"
proof -
  have "sorted (map sp_t (switch_points (hold_still params T)))"
    unfolding hold_still_def using assms by (intro populate_sorted) simp_all
  then show ?thesis
    by (simp add: rest_to_rest_def hold_still_final)
      (simp add: hold_still_def populate_length populate_origin)
qed



subsection \<open>The synchronizer succeeds on solved axes\<close>










subsection \<open>Evaluation outside the duration, and angles\<close>



lemma wrap_angle_unique:
  assumes "- pi < d - 2 * pi * of_int k" and "d - 2 * pi * of_int k \<le> pi"
  shows "wrap_angle d = d - 2 * pi * of_int k"
proof -
  have "\<lceil>(d - pi) / (2 * pi)\<rceil> = k"
  proof (rule ceiling_unique)
    from assms(1) have "(of_int k - 1) * (2 * pi) < d - pi"
      by (simp add: algebra_simps)
    then show "of_int k - 1 < (d - pi) / (2 * pi)"
      by (simp add: pos_less_divide_eq)
    from assms(2) have "d - pi \<le> of_int k * (2 * pi)"
      by (simp add: algebra_simps)
    then show "(d - pi) / (2 * pi) \<le> of_int k"
      by (simp add: pos_divide_le_eq)
  qed
  then show ?thesis
    by (simp add: wrap_angle_def)
qed

lemma wrap_angle_id: "- pi < d \<Longrightarrow> d \<le> pi \<Longrightarrow> wrap_angle d = d"
  using wrap_angle_unique [of d 0] by simp




subsection \<open>Complete trajectories\<close>



subsection \<open>The facade\<close>




subsection \<open>Lookup outside the duration of the stored trajectory\<close>





subsection \<open>The concrete inputs, evaluated\<close>

lemma generateSCurve_unit: "generateSCurve 1 scenario_limits solver = Some unit_profile"
  by (simp add: generateSCurve_def nominal_def segment_times_def scenario_limits_def
      strictly_positive_def unit_profile_def Let_def)










lemma wrap_angle_0: "wrap_angle 0 = 0"
  by (intro wrap_angle_id) simp_all

lemma wrap_angle_1: "wrap_angle 1 = 1"
  using pi_ge_two by (intro wrap_angle_id) simp_all







text \<open>
  The fifth scenario: under \<open>V = 10\<close>, \<open>A = 10\<close>, \<open>J = 0.01\<close> the nominal step and all ten
  relaxation trials are rejected for the distance \<open>0.001\<close>.
\<close>

lemma generateSCurve_starved:
  "generateSCurve (1 / 1000) jerk_starved_limits typical_solver = None"
  by (simp add: generateSCurve_def nominal_def trial_def trial_limits_def jerk_starved_limits_def
      typical_solver_def segment_times_def strictly_positive_def Let_def eval_nat_numeral)

lemma starved_generate:
  "generatePointToPointTrajectory jerk_starved_cfg fresh_generator scenario_start short_target False
     = (False, fresh_generator)"
proof -
  have "sqrt ((1 / 1000)\<^sup>2) = (1 / 1000 :: real)"
    by simp
  then show ?thesis
    by (simp add: generatePointToPointTrajectory_def generateTrajectory_def
        buildMotionPlanningProblem_def jerk_starved_cfg_def scenario_start_def short_target_def
        mode_limits_def tolerance_def solve_axis_def generateSCurve_starved wrap_angle_0
        fresh_generator_def Let_def)
qed








section \<open>Claims about the solver, the synchronizer and the facade\<close>



text \<open>
  C2. For every parameter set that a successful \<open>generateSCurve\<close> produces, and for every
  one that the synchronizer produces when it brings an axis to the longer duration, by
  solving it again under scaled limits or by holding it still for a duration \<open>T \<ge> 0\<close> (the
  accepted results of \<open>populateSwitchTimeParameters\<close>), there are eight switch points,
  their times are non-decreasing, \<open>t[i] \<le> t[i+1]\<close> for \<open>i\<close> in \<open>0..6\<close>, and switch point 0
  is the origin \<open>(0, 0, 0, 0)\<close>.
\<close>

theorem switch_times_monotone:
  assumes "generateSCurve distance limits solver = Some params
           \<or> resolve_scaled previous s = Some params
           \<or> (0 \<le> T \<and> params = hold_still previous T)"
  shows "length (switch_points params) = 8
    \<and> (\<forall>i<7. sp_t (switch_points params ! i) \<le> sp_t (switch_points params ! (i + 1)))
    \<and> switch_points params ! 0 = \<lparr> sp_t = 0, sp_p = 0, sp_v = 0, sp_a = 0 \<rparr>"
proof -
  from assms consider D L where "solves D L params" | "0 \<le> T" "params = hold_still previous T"
    by (auto simp: resolve_scaled_def nominal_Some_iff dest: generateSCurve_SomeD)
  then obtain D where "rest_to_rest D params"
    by cases (auto dest: solves_rest_to_rest hold_still_rest_to_rest)
  then
  have len: "length (switch_points params) = 8"
    and orig: "switch_points params ! 0 = origin"
    and sorted: "sorted (map sp_t (switch_points params))"
    by (simp_all add: rest_to_rest_def)
  have "sp_t (switch_points params ! i) \<le> sp_t (switch_points params ! (i + 1))" if "i < 7" for i
  proof -
    from that len have "i \<le> i + 1" "i + 1 < length (map sp_t (switch_points params))"
      by simp_all
    from sorted_nth_mono [OF sorted this] that len show ?thesis
      by simp
  qed
  with len orig show ?thesis
    by (simp add: origin_def)
qed

text \<open>
  The solver succeeds for the distance 1 under \<open>V = 0.5\<close>, \<open>A = 0.5\<close>, \<open>J = 1\<close>; the first
  and the last two of its switch-point times are in order.
\<close>

theorem switch_times_monotone_witness:
  "generateSCurve 1 scenario_limits typical_solver = Some unit_profile
   \<and> length (switch_points unit_profile) = 8
   \<and> sp_t (switch_points unit_profile ! 0) \<le> sp_t (switch_points unit_profile ! 1)
   \<and> sp_t (switch_points unit_profile ! 3) \<le> sp_t (switch_points unit_profile ! 4)
   \<and> sp_t (switch_points unit_profile ! 6) \<le> sp_t (switch_points unit_profile ! 7)
   \<and> switch_points unit_profile ! 0 = \<lparr> sp_t = 0, sp_p = 0, sp_v = 0, sp_a = 0 \<rparr>"
proof -
  have h: "generateSCurve 1 scenario_limits typical_solver = Some unit_profile"
    by (rule generateSCurve_unit)
  from switch_times_monotone [OF disjI1, OF h]
  have "length (switch_points unit_profile) = 8"
    and all: "\<forall>i<7. sp_t (switch_points unit_profile ! i) \<le> sp_t (switch_points unit_profile ! (i + 1))"
    and "switch_points unit_profile ! 0 = \<lparr> sp_t = 0, sp_p = 0, sp_v = 0, sp_a = 0 \<rparr>"
    by simp_all
  moreover from all [rule_format, of 0]
  have "sp_t (switch_points unit_profile ! 0) \<le> sp_t (switch_points unit_profile ! 1)"
    by simp
  moreover from all [rule_format, of 3]
  have "sp_t (switch_points unit_profile ! 3) \<le> sp_t (switch_points unit_profile ! 4)"
    by simp
  moreover from all [rule_format, of 6]
  have "sp_t (switch_points unit_profile ! 6) \<le> sp_t (switch_points unit_profile ! 7)"
    by simp
  ultimately show ?thesis
    using h by simp
qed




text \<open>
  C4. Whenever \<open>generatePointToPointTrajectory\<close> or \<open>generateConstVelTrajectory\<close> returns
  false, the generator is as it was before the call, its current trajectory included.
  For the constant-velocity call this holds whatever the inverse solver computes.
\<close>

theorem generation_atomic_on_failure:
  "(\<not> fst (generatePointToPointTrajectory cfg self initial target fineMode) \<longrightarrow>
      snd (generatePointToPointTrajectory cfg self initial target fineMode) = self
      \<and> currentTrajectory (snd (generatePointToPointTrajectory cfg self initial target fineMode))
          = currentTrajectory self)
   \<and> (\<not> fst (generateConstVelTrajectory inverseSolver cfg self initial velocity moveTime fineMode) \<longrightarrow>
      snd (generateConstVelTrajectory inverseSolver cfg self initial velocity moveTime fineMode) = self
      \<and> currentTrajectory
            (snd (generateConstVelTrajectory inverseSolver cfg self initial velocity moveTime fineMode))
          = currentTrajectory self)"
  by (auto simp: generatePointToPointTrajectory_def generateConstVelTrajectory_def Let_def
      split: if_splits option.splits prod.splits)

text \<open>
  The short move of the fifth scenario fails in the solver, and a constant-velocity
  request fails when the inverse solver finds nothing; both leave the generator alone.
\<close>

theorem generation_atomic_on_failure_witness:
  "\<not> fst (generatePointToPointTrajectory jerk_starved_cfg fresh_generator scenario_start short_target False)
   \<and> snd (generatePointToPointTrajectory jerk_starved_cfg fresh_generator scenario_start short_target False)
       = fresh_generator
   \<and> \<not> fst (generateConstVelTrajectory no_inverse scenario_cfg fresh_generator scenario_start
            \<lparr> Velocity_vx = 1, Velocity_vy = 0, Velocity_va = 0 \<rparr> 2 False)
   \<and> snd (generateConstVelTrajectory no_inverse scenario_cfg fresh_generator scenario_start
            \<lparr> Velocity_vx = 1, Velocity_vy = 0, Velocity_va = 0 \<rparr> 2 False)
       = fresh_generator"
proof -
  have p: "\<not> fst (generatePointToPointTrajectory jerk_starved_cfg fresh_generator scenario_start
      short_target False)"
    by (simp add: starved_generate)
  have c: "\<not> fst (generateConstVelTrajectory no_inverse scenario_cfg fresh_generator scenario_start
            \<lparr> Velocity_vx = 1, Velocity_vy = 0, Velocity_va = 0 \<rparr> 2 False)"
    by (simp add: generateConstVelTrajectory_def no_inverse_def Let_def)
  from p c
    generation_atomic_on_failure [where cfg = jerk_starved_cfg and self = fresh_generator
      and initial = scenario_start and target = short_target and fineMode = False]
    generation_atomic_on_failure [where cfg = scenario_cfg and self = fresh_generator
      and initial = scenario_start and fineMode = False and inverseSolver = no_inverse
      and velocity = "\<lparr> Velocity_vx = 1, Velocity_vy = 0, Velocity_va = 0 \<rparr>" and moveTime = 2]
  show ?thesis
    by blast
qed

end
